theory Spec2Isabelle
  imports Complex_Main
begin

section \<open>Number and string conventions\<close>

text \<open>
  Python floats are modelled by their exact real values (type \<open>real\<close>); the one
  non-finite value that the solver produces, positive infinity, is a constructor of
  its own in the type \<open>root\<close>.  Rounding error, overflow and NaN are not modelled:
  \<open>float(s)\<close> is the exact decimal value of \<open>s\<close>, and sums and products are exact.
  Where a statement depends on how doubles round, it is made about
  \<open>solve_recurrence_with\<close>, in which the arithmetic is a parameter.

  A Python \<open>str\<close> is modelled as a \<open>string\<close> in which every \<open>char\<close> stands for
  one code point below 256.
\<close>

datatype root = Fin real | PInf

datatype error = ParseError string | ValueError | IndexError | SolverError

section \<open>types.py\<close>

record FunctionTerm =
  coef :: real
  func :: string
  vars :: "string list"
  shifts :: "real list"

datatype Term = Function FunctionTerm | Constant real

record Recurrence =
  lhs :: FunctionTerm
  rhs :: "Term list"

text \<open>
  The dataclass constructors run \<open>__post_init__\<close>, which raises \<open>ValueError\<close>;
  the constructors of the model return the error as a value.
\<close>

definition mk_FunctionTerm ::
    "real \<Rightarrow> string \<Rightarrow> string list \<Rightarrow> real list \<Rightarrow> error + FunctionTerm" where
  "mk_FunctionTerm c f vs ss =
     (if length vs \<noteq> length ss then Inl ValueError
      else Inr \<lparr>coef = c, func = f, vars = vs, shifts = ss\<rparr>)"

definition mk_Recurrence :: "FunctionTerm \<Rightarrow> Term list \<Rightarrow> error + Recurrence" where
  "mk_Recurrence l r =
     (if coef l \<noteq> 1 then Inl ValueError
      else if list_ex (\<lambda>s. s \<noteq> 0) (shifts l) then Inl ValueError
      else Inr \<lparr>lhs = l, rhs = r\<rparr>)"

section \<open>Python primitives used by the package\<close>

text \<open>\<open>str(n)\<close> for an integer: its decimal digits, with a minus sign when negative.\<close>

fun str_nat :: "nat \<Rightarrow> string" where
  "str_nat n =
     (if n < 10 then [''0123456789'' ! n]
      else str_nat (n div 10) @ [''0123456789'' ! (n mod 10)])"

declare str_nat.simps [simp del]

definition str_int :: "int \<Rightarrow> string" where
  "str_int i = (if i < 0 then ''-'' @ str_nat (nat (- i)) else str_nat (nat i))"

text \<open>\<open>int(x)\<close> for a float truncates towards zero.\<close>

definition py_int :: "real \<Rightarrow> int" where
  "py_int x = (if x < 0 then \<lceil>x\<rceil> else \<lfloor>x\<rfloor>)"

text \<open>
  \<open>round(x, ndigits)\<close> rounds to the nearest multiple of \<open>10 ^ -ndigits\<close>, a tie
  going to the even neighbour.
\<close>

definition round_half_even :: "real \<Rightarrow> int" where
  "round_half_even y =
     (let f = \<lfloor>y\<rfloor>; d = y - of_int f
      in if d < 1 / 2 then f else if 1 / 2 < d then f + 1
         else if even f then f else f + 1)"

definition py_round :: "real \<Rightarrow> nat \<Rightarrow> real" where
  "py_round x ndigits = of_int (round_half_even (x * 10 ^ ndigits)) / 10 ^ ndigits"

text \<open>
  The format \<open>f"{x:.{digits}f}"\<close>: sign, integer part, and \<open>digits\<close> decimals,
  zero-padded, of \<open>x\<close> rounded to that many decimals.
\<close>

definition format_f :: "real \<Rightarrow> nat \<Rightarrow> string" where
  "format_f x digits =
     (let k = nat \<bar>round_half_even (x * 10 ^ digits)\<bar>;
          ip = str_nat (k div 10 ^ digits);
          fp = str_nat (k mod 10 ^ digits)
      in (if x < 0 then ''-'' else []) @ ip @
         (if digits = 0 then []
          else ''.'' @ replicate (digits - length fp) CHR ''0'' @ fp))"

definition rstrip :: "char \<Rightarrow> string \<Rightarrow> string" where
  "rstrip c s = rev (dropWhile (\<lambda>x. x = c) (rev s))"

fun join :: "string \<Rightarrow> string list \<Rightarrow> string" where
  "join sep [] = []"
| "join sep [x] = x"
| "join sep (x # y # ys) = x @ sep @ join sep (y # ys)"

text \<open>
  \<open>s.replace(old, new)\<close> for a nonempty \<open>old\<close>: the occurrences are replaced from
  the left, without overlap.
\<close>

function str_replace :: "string \<Rightarrow> string \<Rightarrow> string \<Rightarrow> string" where
  "str_replace old new s =
     (if s = [] \<or> old = [] then s
      else if take (length old) s = old
           then new @ str_replace old new (drop (length old) s)
           else hd s # str_replace old new (tl s))"
  by pat_completeness auto
termination
  by (relation "measure (\<lambda>(old, new, s). length s)") auto

declare str_replace.simps [simp del]

text \<open>
  Character classes, for code points below 256: \<open>\s\<close> and \<open>str.strip\<close> (whitespace),
  \<open>\d\<close> (decimal digits), \<open>\p{L}\<close> (letters) and \<open>\p{N}\<close> (numbers).
\<close>

definition is_space :: "char \<Rightarrow> bool" where
  "is_space c =
     (let n = (of_char c :: nat)
      in (9 \<le> n \<and> n \<le> 13) \<or> (28 \<le> n \<and> n \<le> 32) \<or> n = 133 \<or> n = 160)"

definition is_digit :: "char \<Rightarrow> bool" where
  "is_digit c = (let n = (of_char c :: nat) in 48 \<le> n \<and> n \<le> 57)"

definition is_letter :: "char \<Rightarrow> bool" where
  "is_letter c =
     (let n = (of_char c :: nat)
      in (65 \<le> n \<and> n \<le> 90) \<or> (97 \<le> n \<and> n \<le> 122) \<or> n = 170 \<or> n = 181 \<or> n = 186 \<or>
         (192 \<le> n \<and> n \<le> 214) \<or> (216 \<le> n \<and> n \<le> 246) \<or> 248 \<le> n)"

definition is_number :: "char \<Rightarrow> bool" where
  "is_number c =
     (let n = (of_char c :: nat)
      in (48 \<le> n \<and> n \<le> 57) \<or> n = 178 \<or> n = 179 \<or> n = 185 \<or> (188 \<le> n \<and> n \<le> 190))"

text \<open>\<open>s.strip()\<close>, \<open>s.split(c)\<close> for a one-character separator, \<open>float(s)\<close>.\<close>

definition strip :: "string \<Rightarrow> string" where
  "strip s = rev (dropWhile is_space (rev (dropWhile is_space s)))"

fun split_chr :: "char \<Rightarrow> string \<Rightarrow> string list" where
  "split_chr c [] = [[]]"
| "split_chr c (x # xs) =
     (if x = c then [] # split_chr c xs
      else (case split_chr c xs of [] \<Rightarrow> [[x]] | y # ys \<Rightarrow> (x # y) # ys))"

definition digits_value :: "string \<Rightarrow> nat" where
  "digits_value ds = foldl (\<lambda>a c. 10 * a + (of_char c - 48)) 0 ds"

text \<open>
  \<open>float(s)\<close> on a string of the shape \<open>[+-]digits[.digits]\<close>, the only shape that the
  parser passes to it: the exact decimal value.
\<close>

definition float_of_str :: "string \<Rightarrow> real" where
  "float_of_str s =
     (let neg = (s \<noteq> [] \<and> hd s = CHR ''-'');
          body = (if s \<noteq> [] \<and> (hd s = CHR ''-'' \<or> hd s = CHR ''+'') then tl s else s);
          ip = takeWhile is_digit body;
          fp = takeWhile is_digit (drop (Suc (length ip)) body);
          v = real (digits_value ip) + real (digits_value fp) / 10 ^ length fp
      in if neg then - v else v)"

text \<open>
  The regular expressions.  An end anchor \<open>$\<close> matches at the end of the string or
  before a final newline.
\<close>

definition at_end :: "string \<Rightarrow> bool" where
  "at_end s = (s = [] \<or> s = [CHR 0x0A])"

text \<open>
  \<open>scan_number s\<close> matches \<open>-?\d+(?:\.\d+)?\<close> greedily at the start of \<open>s\<close> and
  returns the matched text and the rest.  No shorter match of this expression can be
  followed by a star, a letter or the end of the string, so the greedy match is the
  only one that the patterns below can use.
\<close>

definition scan_unsigned :: "string \<Rightarrow> (string \<times> string) option" where
  "scan_unsigned s =
     (let ip = takeWhile is_digit s; r = dropWhile is_digit s
      in if ip = [] then None
         else (case r of
                 c # r' \<Rightarrow>
                   if c = CHR ''.'' \<and> takeWhile is_digit r' \<noteq> []
                   then Some (ip @ ''.'' @ takeWhile is_digit r', dropWhile is_digit r')
                   else Some (ip, r)
               | [] \<Rightarrow> Some (ip, r)))"

definition scan_number :: "string \<Rightarrow> (string \<times> string) option" where
  "scan_number s =
     (case s of
        c # r \<Rightarrow>
          if c = CHR ''-''
          then (case scan_unsigned r of None \<Rightarrow> None | Some (m, r') \<Rightarrow> Some (c # m, r'))
          else scan_unsigned s
      | [] \<Rightarrow> None)"

text \<open>\<open>NUMBER_PATTERN = ^-?\d+(?:\.\d+)?$\<close>\<close>

definition NUMBER_PATTERN :: "string \<Rightarrow> bool" where
  "NUMBER_PATTERN s = (case scan_number s of None \<Rightarrow> False | Some (m, r) \<Rightarrow> at_end r)"

definition ident_char :: "char \<Rightarrow> bool" where
  "ident_char c =
     (is_letter c \<or> is_number c \<or> c = CHR ''_'' \<or> c = CHR 0x7B \<or> c = CHR 0x7D)"

text \<open>\<open>IDENTIFIER_PATTERN = ^[\p{L}][\p{L}\p{N}_{}]*$\<close>\<close>

definition is_valid_identifier :: "string \<Rightarrow> bool" where
  "is_valid_identifier name =
     (case name of
        [] \<Rightarrow> False
      | c # cs \<Rightarrow> is_letter c \<and> at_end (dropWhile ident_char cs))"

text \<open>
  \<open>^([^(]+)\(([^)]*)\)$\<close>, the pattern of the left-hand side: the two groups.
\<close>

definition match_lhs :: "string \<Rightarrow> (string \<times> string) option" where
  "match_lhs s =
     (let g1 = takeWhile (\<lambda>c. c \<noteq> CHR ''('') s; r = dropWhile (\<lambda>c. c \<noteq> CHR ''('') s
      in if g1 = [] \<or> r = [] then None
         else (let g2 = takeWhile (\<lambda>c. c \<noteq> CHR '')'') (tl r);
                   r2 = dropWhile (\<lambda>c. c \<noteq> CHR '')'') (tl r)
               in if r2 \<noteq> [] \<and> at_end (tl r2) then Some (g1, g2) else None))"

text \<open>
  \<open>^(?:(-?\d+(?:\.\d+)?)\*?)?(IDENT)\(([^)]*)\)$\<close>, the pattern of a function term:
  the coefficient group (absent when the term has no coefficient), the name and the
  arguments.
\<close>

definition match_term :: "string \<Rightarrow> (string option \<times> string \<times> string) option" where
  "match_term s =
     (let (coef_str, r0) =
            (case scan_number s of
               None \<Rightarrow> (None, s)
             | Some (m, r) \<Rightarrow>
                 (Some m, if r \<noteq> [] \<and> hd r = CHR ''*'' then tl r else r))
      in case r0 of
           [] \<Rightarrow> None
         | c # cs \<Rightarrow>
             if \<not> is_letter c then None
             else (let name = c # takeWhile ident_char cs; r1 = dropWhile ident_char cs
                   in if r1 = [] \<or> hd r1 \<noteq> CHR ''('' then None
                      else (let g3 = takeWhile (\<lambda>c. c \<noteq> CHR '')'') (tl r1);
                                r2 = dropWhile (\<lambda>c. c \<noteq> CHR '')'') (tl r1)
                            in if r2 \<noteq> [] \<and> at_end (tl r2)
                               then Some (coef_str, name, g3) else None)))"

text \<open>
  \<open>^VAR([+-]\d+(?:\.\d+)?)?$\<close>, the pattern of an argument, \<open>VAR\<close> being the escaped
  variable name: the shift group, absent when the argument is the bare variable.
\<close>

definition match_shift :: "string \<Rightarrow> string \<Rightarrow> string option option" where
  "match_shift var arg =
     (if take (length var) arg \<noteq> var then None
      else (let r = drop (length var) arg
            in if at_end r then Some None
               else (case r of
                       [] \<Rightarrow> None
                     | c # r' \<Rightarrow>
                         if c = CHR ''+'' \<or> c = CHR ''-''
                         then (case scan_unsigned r' of
                                 None \<Rightarrow> None
                               | Some (m, r'') \<Rightarrow> if at_end r'' then Some (Some (c # m)) else None)
                         else None)))"

section \<open>utils.py\<close>

definition snap_int :: "root \<Rightarrow> nat \<Rightarrow> root" where
  "snap_int val ndigits =
     (case val of
        PInf \<Rightarrow> val
      | Fin v \<Rightarrow>
          (let rounded = py_round v ndigits
           in if rounded = of_int (py_int rounded) then Fin (of_int (py_int rounded))
              else Fin rounded))"

definition format_number :: "root \<Rightarrow> nat \<Rightarrow> string" where
  "format_number x digits =
     (case x of
        PInf \<Rightarrow> ''inf''
      | Fin v \<Rightarrow>
          (let factor = (10::int) ^ digits;
               rounded = of_int \<lceil>v * of_int factor\<rceil> / of_int factor;
               formatted = format_f rounded digits
           in rstrip CHR ''.'' (rstrip CHR ''0'' formatted)))"

section \<open>formatter.py\<close>

definition format_constant :: "real \<Rightarrow> string" where
  "format_constant c =
     (if c = of_int (py_int c) then str_int (py_int c) else format_number (Fin c) 5)"

definition format_arg :: "string \<times> real \<Rightarrow> string" where
  "format_arg a =
     (case a of (var, shift) \<Rightarrow>
        if shift = 0 then var
        else if shift < 0 then var @ ''-'' @ format_constant (- shift)
        else var @ ''+'' @ format_constant shift)"

definition format_function_term :: "FunctionTerm \<Rightarrow> string" where
  "format_function_term t =
     (let coef_str =
            (if coef t = 1 then []
             else if coef t = - 1 then ''-''
             else format_constant (coef t) @ ''*'');
          args = map format_arg (zip (vars t) (shifts t))
      in coef_str @ func t @ ''('' @ join '', '' args @ '')'')"

definition format_term :: "Term \<Rightarrow> string" where
  "format_term t =
     (case t of Constant c \<Rightarrow> format_constant c | Function f \<Rightarrow> format_function_term f)"

definition format_recurrence :: "Recurrence \<Rightarrow> string" where
  "format_recurrence rec =
     (let lhs_str = func (lhs rec) @ ''('' @ join '', '' (vars (lhs rec)) @ '')''
      in if rhs rec = [] then lhs_str @ '' = 0''
         else lhs_str @ '' = '' @
              str_replace '' + -'' '' - '' (join '' + '' (map format_term (rhs rec))))"

text \<open>
  The divergence marker is \<open>O(\<infinity>)\<close>; its infinity sign, U+221E, is written here as
  the three bytes of its UTF-8 encoding.
\<close>

definition format_asymptotics :: "Recurrence \<Rightarrow> root \<Rightarrow> error + string" where
  "format_asymptotics rec r =
     (if length (vars (lhs rec)) \<noteq> 1 then Inl ValueError
      else if r = PInf then Inr (''O('' @ [CHR 0xE2, CHR 0x88, CHR 0x9E] @ '')'')
      else if r = Fin 1 then Inr ''O(1)''
      else Inr (''O('' @ format_number r 5 @ ''^'' @ hd (vars (lhs rec)) @ '')''))"

section \<open>parser.py\<close>

text \<open>
  The functions \<open>_split_rhs\<close>, \<open>_parse_term\<close>, \<open>_parse_shift\<close> and \<open>_combine_terms\<close>
  of the source appear without the leading underscore.  A loop that appends to a list
  and may raise is a recursive function returning the first error.
\<close>

fun split_rhs_loop :: "string \<Rightarrow> string list \<Rightarrow> int \<Rightarrow> string \<Rightarrow> string list" where
  "split_rhs_loop [] out depth buf = (if buf \<noteq> [] then out @ [buf] else out)"
| "split_rhs_loop (ch # s) out depth buf =
     (if ch = CHR ''('' then split_rhs_loop s out (depth + 1) (buf @ [ch])
      else if ch = CHR '')'' then split_rhs_loop s out (max 0 (depth - 1)) (buf @ [ch])
      else if ch = CHR ''+'' \<and> depth = 0
           then split_rhs_loop s (if buf \<noteq> [] then out @ [buf] else out) depth []
      else split_rhs_loop s out depth (buf @ [ch]))"

definition split_rhs :: "string \<Rightarrow> string list" where
  "split_rhs s = split_rhs_loop s [] 0 []"

definition quoted :: "string \<Rightarrow> string" where
  "quoted s = [CHR 0x27] @ s @ [CHR 0x27]"

definition parse_shift :: "string \<Rightarrow> string \<Rightarrow> string \<Rightarrow> error + real" where
  "parse_shift arg var summand =
     (case match_shift var arg of
        None \<Rightarrow>
          Inl (ParseError (''Invalid argument '' @ quoted arg @ '' in term '' @ quoted summand))
      | Some shift_str \<Rightarrow>
          Inr (case shift_str of Some t \<Rightarrow> float_of_str t | None \<Rightarrow> 0))"

fun parse_shifts :: "string list \<Rightarrow> string list \<Rightarrow> string \<Rightarrow> error + real list" where
  "parse_shifts (arg # args) (var # vs) summand =
     (case parse_shift arg var summand of
        Inl e \<Rightarrow> Inl e
      | Inr shift \<Rightarrow>
          (case parse_shifts args vs summand of
             Inl e \<Rightarrow> Inl e
           | Inr rest \<Rightarrow> Inr (shift # rest)))"
| "parse_shifts args vs summand = Inr []"

definition parse_term :: "string \<Rightarrow> string \<Rightarrow> string list \<Rightarrow> error + Term" where
  "parse_term summand fn vars_list =
     (if NUMBER_PATTERN summand then Inr (Constant (float_of_str summand))
      else (case match_term summand of
              None \<Rightarrow> Inl (ParseError (''Invalid term: '' @ summand))
            | Some (coef_str, fn_name, args_str) \<Rightarrow>
                (let c = (case coef_str of Some t \<Rightarrow> float_of_str t | None \<Rightarrow> 1)
                 in if \<not> is_valid_identifier fn_name
                    then Inl (ParseError (''Invalid function name: '' @ fn_name))
                    else if fn_name \<noteq> fn
                    then Inl (ParseError (''Term '' @ quoted summand @
                           '' uses different function name '' @ quoted fn_name @
                           '' than '' @ quoted fn))
                    else (let args_raw = map strip (split_chr CHR '','' args_str)
                          in if length args_raw \<noteq> length vars_list
                             then Inl (ParseError (''Term '' @ quoted summand @ '' has '' @
                                    str_nat (length args_raw) @ '' args, expected '' @
                                    str_nat (length vars_list)))
                             else (case parse_shifts args_raw vars_list summand of
                                     Inl e \<Rightarrow> Inl e
                                   | Inr shs \<Rightarrow>
                                       (case mk_FunctionTerm c fn vars_list shs of
                                          Inl e \<Rightarrow> Inl e
                                        | Inr t \<Rightarrow> Inr (Function t)))))))"

fun parse_terms :: "string list \<Rightarrow> string \<Rightarrow> string list \<Rightarrow> error + Term list" where
  "parse_terms [] fn vars_list = Inr []"
| "parse_terms (summand # rest) fn vars_list =
     (case parse_term summand fn vars_list of
        Inl e \<Rightarrow> Inl e
      | Inr t \<Rightarrow>
          (case parse_terms rest fn vars_list of
             Inl e \<Rightarrow> Inl e
           | Inr ts \<Rightarrow> Inr (t # ts)))"

text \<open>
  The dictionary \<open>function_map\<close> keeps its keys in insertion order, and assigning to a
  key that is present keeps the key's place: an association list.
\<close>

type_synonym function_map = "(real list \<times> real) list"

definition dict_get :: "function_map \<Rightarrow> real list \<Rightarrow> real \<Rightarrow> real" where
  "dict_get m k dflt = (case map_of m k of None \<Rightarrow> dflt | Some v \<Rightarrow> v)"

fun dict_set :: "function_map \<Rightarrow> real list \<Rightarrow> real \<Rightarrow> function_map" where
  "dict_set [] k v = [(k, v)]"
| "dict_set ((k', v') # m) k v =
     (if k' = k then (k', v) # m else (k', v') # dict_set m k v)"

fun combine_loop :: "Term list \<Rightarrow> real \<Rightarrow> function_map \<Rightarrow> real \<times> function_map" where
  "combine_loop [] constant_sum fm = (constant_sum, fm)"
| "combine_loop (Constant c # ts) constant_sum fm = combine_loop ts (constant_sum + c) fm"
| "combine_loop (Function t # ts) constant_sum fm =
     combine_loop ts constant_sum (dict_set fm (shifts t) (dict_get fm (shifts t) 0 + coef t))"

fun emit_functions :: "function_map \<Rightarrow> string list \<Rightarrow> string \<Rightarrow> error + Term list" where
  "emit_functions [] vars_list fn = Inr []"
| "emit_functions ((shifts_tuple, c) # m) vars_list fn =
     (if \<bar>c\<bar> < 1 / 10 ^ 12 then emit_functions m vars_list fn
      else (case mk_FunctionTerm c fn vars_list shifts_tuple of
              Inl e \<Rightarrow> Inl e
            | Inr t \<Rightarrow>
                (case emit_functions m vars_list fn of
                   Inl e \<Rightarrow> Inl e
                 | Inr ts \<Rightarrow> Inr (Function t # ts))))"

definition combine_terms :: "Term list \<Rightarrow> string list \<Rightarrow> string \<Rightarrow> error + Term list" where
  "combine_terms raw_terms vars_list fn =
     (let (constant_sum, fm) = combine_loop raw_terms 0 [];
          terms = (if 1 / 10 ^ 12 < \<bar>constant_sum\<bar> then [Constant constant_sum] else [])
      in case emit_functions fm vars_list fn of
           Inl e \<Rightarrow> Inl e
         | Inr fts \<Rightarrow> Inr (terms @ fts))"

fun check_vars :: "string list \<Rightarrow> string list \<Rightarrow> error + string list" where
  "check_vars [] vars_list = Inr vars_list"
| "check_vars (arg # raw_args) vars_list =
     (if \<not> is_valid_identifier arg then Inl (ParseError (''Invalid variable name: '' @ arg))
      else if arg \<in> set vars_list then Inl (ParseError (''Duplicate variable name: '' @ arg))
      else check_vars raw_args (vars_list @ [arg]))"

text \<open>
  \<open>parse_recurrence\<close> up to the list \<open>raw_terms\<close>: the function name, the variables,
  the left-hand side and the terms of the summands before they are combined.
\<close>

definition parse_raw ::
    "string \<Rightarrow> error + (string \<times> string list \<times> FunctionTerm \<times> Term list)" where
  "parse_raw text =
     (let cleaned = filter (\<lambda>c. \<not> is_space c) text
      in if cleaned = [] then Inl (ParseError ''Empty input'')
         else (let parts = split_chr CHR ''='' cleaned
               in if length parts \<noteq> 2
                  then Inl (ParseError (''Expected exactly one '' @ quoted ''='' @ '': '' @ text))
                  else (let lhs_str = parts ! 0; rhs_str = parts ! 1
                        in if lhs_str = [] then Inl (ParseError ''Empty left-hand side'')
                           else if rhs_str = [] then Inl (ParseError ''Empty right-hand side'')
                           else (case match_lhs lhs_str of
                             None \<Rightarrow> Inl (ParseError (''Invalid left-hand side: '' @ lhs_str))
                           | Some (fn, raw_args_str) \<Rightarrow>
                               if \<not> is_valid_identifier fn
                               then Inl (ParseError (''Invalid function name: '' @ fn))
                               else (let raw_args = filter (\<lambda>a. a \<noteq> [])
                                           (map strip (split_chr CHR '','' raw_args_str))
                                     in if raw_args = []
                                        then Inl (ParseError (''No arguments in '' @ lhs_str))
                                        else (case check_vars raw_args [] of
                                   Inl e \<Rightarrow> Inl e
                                 | Inr vars_list \<Rightarrow>
                                     (case mk_FunctionTerm 1 fn vars_list
                                             (replicate (length vars_list) 0) of
                                        Inl e \<Rightarrow> Inl e
                                      | Inr l \<Rightarrow>
                                          (let summands = filter (\<lambda>t. t \<noteq> [])
                                                 (map strip (split_rhs rhs_str))
                                           in if summands = []
                                              then Inl (ParseError ''Empty right-hand side'')
                                              else if length summands = 1 \<and>
                                                      NUMBER_PATTERN (summands ! 0)
                                              then Inr (fn, vars_list, l,
                                                     [Constant (float_of_str (summands ! 0))])
                                              else (case parse_terms summands fn vars_list of
                                                      Inl e \<Rightarrow> Inl e
                                                    | Inr raw_terms \<Rightarrow>
                                                        Inr (fn, vars_list, l, raw_terms))))))))))"

definition parse_recurrence :: "string \<Rightarrow> error + Recurrence" where
  "parse_recurrence text =
     (case parse_raw text of
        Inl e \<Rightarrow> Inl e
      | Inr (fn, vars_list, l, raw_terms) \<Rightarrow>
          (case combine_terms raw_terms vars_list fn of
             Inl e \<Rightarrow> Inl e
           | Inr terms \<Rightarrow> mk_Recurrence l terms))"

section \<open>solver.py\<close>

text \<open>
  The two calls of \<open>scipy.optimize.root_scalar\<close> are parameters of the model: a call
  converges to a root, reports that it did not converge, or raises.
\<close>

datatype scalar_sol = Converged real | NotConverged | Raised

type_synonym brentq_fn = "(real \<Rightarrow> root) \<Rightarrow> real \<Rightarrow> real \<Rightarrow> scalar_sol"

type_synonym newton_fn = "(real \<Rightarrow> root) \<Rightarrow> (real \<Rightarrow> root) \<Rightarrow> real \<Rightarrow> nat \<Rightarrow> scalar_sol"

definition PENALTY :: real where
  "PENALTY = 1000000"

text \<open>\<open>np.isfinite(fb) and fb <= 0\<close>\<close>

definition finite_nonpos :: "root \<Rightarrow> bool" where
  "finite_nonpos fb = (case fb of Fin v \<Rightarrow> v \<le> 0 | PInf \<Rightarrow> False)"

definition eval_poly_and_derivative :: "real \<Rightarrow> real list \<Rightarrow> root \<times> root" where
  "eval_poly_and_derivative x deltas =
     (if x \<le> 0 then (PInf, PInf)
      else (let lx = ln x;
                exp_terms = map (\<lambda>d. exp (- d * lx)) deltas;
                s = sum_list exp_terms;
                w = sum_list (map (\<lambda>(d, e). d * e) (zip deltas exp_terms));
                g = s - 1;
                gp = - w / x
            in (Fin g, Fin gp)))"

text \<open>The fallback loop of \<open>find_root\<close>, \<open>n\<close> being the iterations left.\<close>

fun expand_bracket :: "(real \<Rightarrow> root) \<Rightarrow> real \<Rightarrow> nat \<Rightarrow> real option" where
  "expand_bracket g bb n =
     (if n = 0 then None
      else (let bb' = min (bb * 2) (10 ^ 12)
            in if finite_nonpos (g bb') then Some bb' else expand_bracket g bb' (n - 1)))"

declare expand_bracket.simps [simp del]

definition find_root ::
    "newton_fn \<Rightarrow> brentq_fn \<Rightarrow> real list \<Rightarrow> root option \<Rightarrow> error + root" where
  "find_root newton brentq deltas x0 =
     (let d = deltas; m = length d
      in if m = 0 then Inr PInf
         else if m = 1 then Inr (Fin 1)
         else (let min_delta = Min (set d)
               in if min_delta \<le> 0 then Inr (Fin PENALTY)
                  else (let g = (\<lambda>x. fst (eval_poly_and_derivative x d));
                            log_m = ln (real m);
                            b_cap = 10 ^ 12;
                            exponent = log_m / min_delta;
                            log_cap = ln (b_cap / (101 / 100));
                            b = (if log_cap \<le> exponent then b_cap
                                 else max 2 (exp exponent * (101 / 100)));
                            fb = g b
                        in case (if finite_nonpos fb then Some b else expand_bracket g b 40) of
                             None \<Rightarrow> Inr (Fin PENALTY)
                           | Some b \<Rightarrow>
                               (let fast =
                                  (case x0 of
                                     Some (Fin v) \<Rightarrow>
                                       (let x0c = min b (max v 1)
                                        in case newton g (\<lambda>x. snd (eval_poly_and_derivative x d))
                                                  x0c 20 of
                                             Converged r \<Rightarrow>
                                               if 1 \<le> r \<and> r \<le> b * (1000001 / 1000000)
                                               then Some r else None
                                           | _ \<Rightarrow> None)
                                   | _ \<Rightarrow> None)
                                in case fast of
                                     Some r \<Rightarrow> Inr (Fin r)
                                   | None \<Rightarrow>
                                       (case brentq g 1 b of
                                          Converged r \<Rightarrow> Inr (Fin r)
                                        | NotConverged \<Rightarrow> Inr (Fin PENALTY)
                                        | Raised \<Rightarrow> Inl SolverError)))))"

text \<open>The function \<open>g\<close> local to \<open>solve_recurrence\<close>.\<close>

definition solve_g :: "real list \<Rightarrow> real list \<Rightarrow> real \<Rightarrow> root" where
  "solve_g coefs deltas x =
     (if x \<le> 0 then PInf
      else (let lx = ln x
            in Fin (sum_list (map (\<lambda>(c, d). c * exp (- d * lx)) (zip coefs deltas)) - 1)))"

text \<open>The bracket loop of \<open>solve_recurrence\<close>, \<open>n\<close> being the iterations left.\<close>

fun find_bracket :: "(real \<Rightarrow> root) \<Rightarrow> real \<Rightarrow> nat \<Rightarrow> real option" where
  "find_bracket g b n =
     (if n = 0 then None
      else if finite_nonpos (g b) then Some b
      else if 10 ^ 12 < b * 2 then None
      else find_bracket g (b * 2) (n - 1))"

declare find_bracket.simps [simp del]

definition function_terms :: "Term list \<Rightarrow> FunctionTerm list" where
  "function_terms ts = concat (map (\<lambda>t. case t of Function f \<Rightarrow> [f] | Constant c \<Rightarrow> []) ts)"

definition solve_recurrence :: "brentq_fn \<Rightarrow> Recurrence \<Rightarrow> error + root" where
  "solve_recurrence brentq rec =
     (let vars_list = vars (lhs rec); num_vars = length vars_list
      in if num_vars \<noteq> 1 then Inl ValueError
         else (let func_terms = function_terms (rhs rec)
               in if func_terms = [] then Inr (Fin 1)
                  else if list_ex (\<lambda>t. shifts t = []) func_terms then Inl IndexError
                  else (let coefs = map coef func_terms;
                            deltas = map (\<lambda>t. - (shifts t ! 0)) func_terms
                        in if list_ex (\<lambda>d. d \<le> 0) deltas then Inr (Fin PENALTY)
                           else (let g = solve_g coefs deltas;
                                     g1 = g 1
                                 in if (case g1 of Fin v \<Rightarrow> \<bar>v\<bar> < 1 / 10 ^ 12 | PInf \<Rightarrow> False)
                                    then Inr (Fin 1)
                                    else if (case g1 of Fin v \<Rightarrow> v < 0 | PInf \<Rightarrow> False)
                                    then Inr (Fin PENALTY)
                                    else (case find_bracket g 2 50 of
                                            None \<Rightarrow> Inr (Fin PENALTY)
                                          | Some b \<Rightarrow>
                                              (case brentq g 1 b of
                                                 Converged r \<Rightarrow> Inr (snap_int (Fin r) 6)
                                               | _ \<Rightarrow> Inr (Fin PENALTY)))))))"

text \<open>
  \<open>solve_recurrence\<close> with its floating-point parts as parameters: \<open>G coefs deltas\<close>
  stands for the local function \<open>g\<close> as the code evaluates it in double arithmetic, and
  \<open>eps\<close> for the double that the literal \<open>1e-12\<close> denotes.  Everything else is as in
  \<open>solve_recurrence\<close>, which is the instance with exact real arithmetic.
\<close>

definition solve_recurrence_with ::
    "(real list \<Rightarrow> real list \<Rightarrow> real \<Rightarrow> root) \<Rightarrow> real \<Rightarrow> brentq_fn \<Rightarrow> Recurrence \<Rightarrow> error + root"
  where
  "solve_recurrence_with G eps brentq rec =
     (let vars_list = vars (lhs rec); num_vars = length vars_list
      in if num_vars \<noteq> 1 then Inl ValueError
         else (let func_terms = function_terms (rhs rec)
               in if func_terms = [] then Inr (Fin 1)
                  else if list_ex (\<lambda>t. shifts t = []) func_terms then Inl IndexError
                  else (let coefs = map coef func_terms;
                            deltas = map (\<lambda>t. - (shifts t ! 0)) func_terms
                        in if list_ex (\<lambda>d. d \<le> 0) deltas then Inr (Fin PENALTY)
                           else (let g = G coefs deltas;
                                     g1 = g 1
                                 in if (case g1 of Fin v \<Rightarrow> \<bar>v\<bar> < eps | PInf \<Rightarrow> False)
                                    then Inr (Fin 1)
                                    else if (case g1 of Fin v \<Rightarrow> v < 0 | PInf \<Rightarrow> False)
                                    then Inr (Fin PENALTY)
                                    else (case find_bracket g 2 50 of
                                            None \<Rightarrow> Inr (Fin PENALTY)
                                          | Some b \<Rightarrow>
                                              (case brentq g 1 b of
                                                 Converged r \<Rightarrow> Inr (snap_int (Fin r) 6)
                                               | _ \<Rightarrow> Inr (Fin PENALTY)))))))"

section \<open>Notions used in the statements\<close>

text \<open>
  The coefficients and the deltas that \<open>solve_recurrence\<close> extracts from a recurrence,
  and the recurrences on which it reaches the evaluation of \<open>g(1)\<close>: one variable, at
  least one function term on the right, and every delta positive.
\<close>

definition rec_coefs :: "Recurrence \<Rightarrow> real list" where
  "rec_coefs rec = map coef (function_terms (rhs rec))"

definition rec_deltas :: "Recurrence \<Rightarrow> real list" where
  "rec_deltas rec = map (\<lambda>t. - (shifts t ! 0)) (function_terms (rhs rec))"

definition positive_deltas :: "Recurrence \<Rightarrow> bool" where
  "positive_deltas rec =
     (length (vars (lhs rec)) = 1 \<and> function_terms (rhs rec) \<noteq> [] \<and>
      list_all (\<lambda>t. shifts t \<noteq> [] \<and> shifts t ! 0 < 0) (function_terms (rhs rec)))"

text \<open>
  The normalizer in the words of the specification: the constants of a term list, the
  distinct shift vectors of its function terms in the order of their first occurrence,
  and the summed coefficient of the function terms that share a shift vector.
\<close>

definition constants_of :: "Term list \<Rightarrow> real list" where
  "constants_of ts = concat (map (\<lambda>t. case t of Constant c \<Rightarrow> [c] | Function f \<Rightarrow> []) ts)"

definition shift_vectors :: "FunctionTerm list \<Rightarrow> real list list" where
  "shift_vectors fts = rev (remdups (rev (map shifts fts)))"

definition grouped_coef :: "FunctionTerm list \<Rightarrow> real list \<Rightarrow> real" where
  "grouped_coef fts k = sum_list (map coef (filter (\<lambda>t. shifts t = k) fts))"

definition normalized_terms :: "Term list \<Rightarrow> string list \<Rightarrow> string \<Rightarrow> Term list" where
  "normalized_terms raw_terms vars_list fn =
     (let constant_sum = sum_list (constants_of raw_terms);
          fts = function_terms raw_terms
      in (if 1 / 10 ^ 12 < \<bar>constant_sum\<bar> then [Constant constant_sum] else []) @
         map (\<lambda>k. Function \<lparr>coef = grouped_coef fts k, func = fn, vars = vars_list, shifts = k\<rparr>)
           (filter (\<lambda>k. 1 / 10 ^ 12 \<le> \<bar>grouped_coef fts k\<bar>) (shift_vectors fts)))"




section \<open>Evaluation rules\<close>

lemma replicate_numeral_eval: "replicate (numeral k) x = x # replicate (pred_numeral k) x"
  by (simp add: numeral_eq_Suc)

lemma exp_mult_ln: "0 < (x::real) \<Longrightarrow> exp (a * ln x) = x powr a"
  by (auto simp: powr_def)

lemmas exp_eval = exp_minus exp_mult_ln

lemmas char_eval = is_space_def is_digit_def is_letter_def is_number_def ident_char_def at_end_def

lemmas regex_eval = scan_unsigned_def scan_number_def NUMBER_PATTERN_def is_valid_identifier_def
  match_lhs_def match_term_def match_shift_def

lemmas parse_eval = parse_recurrence_def parse_raw_def parse_term_def parse_shift_def
  combine_terms_def split_rhs_def strip_def float_of_str_def digits_value_def dict_get_def
  mk_FunctionTerm_def mk_Recurrence_def quoted_def

lemmas format_eval = format_recurrence_def format_term_def format_function_term_def
  format_arg_def format_constant_def format_number_def format_f_def rstrip_def str_int_def
  py_int_def round_half_even_def str_nat.simps str_replace.simps replicate_numeral_eval

lemma format_number_penalty: "format_number (Fin 1000000) 5 = ''1000000''"
  unfolding format_number_def Let_def format_f_def round_half_even_def
  by (simp add: rstrip_def str_nat.simps replicate_numeral_eval)

lemma format_number_161804: "format_number (Fin (1618034 / 10 ^ 6)) 5 = ''1.61804''"
  unfolding format_number_def Let_def format_f_def round_half_even_def
  by (simp add: rstrip_def str_nat.simps replicate_numeral_eval)

lemma parse_fibonacci:
  "parse_recurrence ''T(n) = T(n-1) + T(n-2)'' =
     Inr \<lparr>lhs = \<lparr>coef = 1, func = ''T'', vars = [''n''], shifts = [0]\<rparr>,
          rhs = [Function \<lparr>coef = 1, func = ''T'', vars = [''n''], shifts = [- 1]\<rparr>,
                 Function \<lparr>coef = 1, func = ''T'', vars = [''n''], shifts = [- 2]\<rparr>]\<rparr>"
  by (simp add: char_eval regex_eval parse_eval Let_def)

lemma parse_half:
  "parse_recurrence ''T(n) = 0.5*T(n-1)'' =
     Inr \<lparr>lhs = \<lparr>coef = 1, func = ''T'', vars = [''n''], shifts = [0]\<rparr>,
          rhs = [Function \<lparr>coef = 1 / 2, func = ''T'', vars = [''n''], shifts = [- 1]\<rparr>]\<rparr>"
  by (simp add: char_eval regex_eval parse_eval Let_def)

lemma solve_g_fib_1: "solve_g [1, 1] [1, 2] 1 = Fin 1"
  by (simp add: solve_g_def Let_def)

lemma solve_g_fib_2: "solve_g [1, 1] [1, 2] 2 = Fin (- 1 / 4)"
  by (simp add: solve_g_def Let_def exp_eval)

lemma find_bracket_fib: "find_bracket (solve_g [1, 1] [1, 2]) 2 50 = Some 2"
  by (simp add: find_bracket.simps solve_g_fib_2 finite_nonpos_def)

lemma py_round_near_phi:
  assumes "\<bar>r - 16180339887 / 10 ^ 10\<bar> \<le> 1 / 10 ^ 9"
  shows "py_round r 6 = 1618034 / 10 ^ 6"
proof -
  have lo: "16180339877 / 10 ^ 10 \<le> r"
    using abs_le_D2 [OF assms] by simp
  have hi: "r \<le> 16180339897 / 10 ^ 10"
    using abs_le_D1 [OF assms] by simp
  have f: "\<lfloor>r * 10 ^ 6\<rfloor> = 1618033"
    using lo hi by (intro floor_unique) simp_all
  have d: "1 / 2 < r * 10 ^ 6 - 1618033" using lo by simp
  show ?thesis
    unfolding py_round_def round_half_even_def Let_def f using d by simp
qed

section \<open>Round trip through the formatter\<close>

text \<open>
  Claim C1.  For every accepted input, formatting the parsed recurrence gives a string
  that parses again, to the same left-hand side and the same terms.  The code does
  not do this when a coefficient is negative: \<open>T(n) = 2*T(n-1) + -1*T(n-2)\<close> is
  accepted, it is formatted as \<open>T(n) = 2*T(n-1) - T(n-2)\<close> (the rewrite of \<open>" + -"\<close>
  to \<open>" - "\<close>), and the parser rejects that string, because it splits summands at
  \<open>+\<close> only.  The theorem evaluates the three steps.
\<close>

theorem roundtrip_negative_coefficient:
  "parse_recurrence ''T(n) = 2*T(n-1) + -1*T(n-2)'' =
     Inr \<lparr>lhs = \<lparr>coef = 1, func = ''T'', vars = [''n''], shifts = [0]\<rparr>,
          rhs = [Function \<lparr>coef = 2, func = ''T'', vars = [''n''], shifts = [- 1]\<rparr>,
                 Function \<lparr>coef = - 1, func = ''T'', vars = [''n''], shifts = [- 2]\<rparr>]\<rparr> \<and>
   format_recurrence
     \<lparr>lhs = \<lparr>coef = 1, func = ''T'', vars = [''n''], shifts = [0]\<rparr>,
      rhs = [Function \<lparr>coef = 2, func = ''T'', vars = [''n''], shifts = [- 1]\<rparr>,
             Function \<lparr>coef = - 1, func = ''T'', vars = [''n''], shifts = [- 2]\<rparr>]\<rparr> =
     ''T(n) = 2*T(n-1) - T(n-2)'' \<and>
   parse_recurrence ''T(n) = 2*T(n-1) - T(n-2)'' =
     Inl (ParseError ''Invalid term: 2*T(n-1)-T(n-2)'')"
proof (intro conjI)
  show "parse_recurrence ''T(n) = 2*T(n-1) + -1*T(n-2)'' =
     Inr \<lparr>lhs = \<lparr>coef = 1, func = ''T'', vars = [''n''], shifts = [0]\<rparr>,
          rhs = [Function \<lparr>coef = 2, func = ''T'', vars = [''n''], shifts = [- 1]\<rparr>,
                 Function \<lparr>coef = - 1, func = ''T'', vars = [''n''], shifts = [- 2]\<rparr>]\<rparr>"
    by (simp add: char_eval regex_eval parse_eval Let_def)
  show "format_recurrence
     \<lparr>lhs = \<lparr>coef = 1, func = ''T'', vars = [''n''], shifts = [0]\<rparr>,
      rhs = [Function \<lparr>coef = 2, func = ''T'', vars = [''n''], shifts = [- 1]\<rparr>,
             Function \<lparr>coef = - 1, func = ''T'', vars = [''n''], shifts = [- 2]\<rparr>]\<rparr> =
     ''T(n) = 2*T(n-1) - T(n-2)''"
    by (simp add: format_eval Let_def)
  show "parse_recurrence ''T(n) = 2*T(n-1) - T(n-2)'' =
     Inl (ParseError ''Invalid term: 2*T(n-1)-T(n-2)'')"
    by (simp add: char_eval regex_eval parse_eval Let_def)
qed

section \<open>The Fibonacci recurrence, end to end\<close>

text \<open>
  Claim C2.  Parsing \<open>T(n) = T(n-1) + T(n-2)\<close>, solving and formatting yields the
  root 1.6180339887 (approximately) and the string \<open>O(1.61803^n)\<close>, the base being
  rounded up at 5 decimals.  On the code, with a root-finder that converges on the
  bracket \<open>[1, 2]\<close> to within \<open>1e-9\<close> of 1.6180339887: the solver returns the root
  rounded to 6 decimals, 1.618034, and the formatter, which does round up, renders
  \<open>O(1.61804^n)\<close>, not \<open>O(1.61803^n)\<close>.
\<close>

theorem fibonacci_end_to_end:
  assumes "brentq (solve_g [1, 1] [1, 2]) 1 2 = Converged r"
    and "\<bar>r - 16180339887 / 10 ^ 10\<bar> \<le> 1 / 10 ^ 9"
  shows "\<exists>rec. parse_recurrence ''T(n) = T(n-1) + T(n-2)'' = Inr rec \<and>
           solve_recurrence brentq rec = Inr (Fin (1618034 / 10 ^ 6)) \<and>
           format_asymptotics rec (Fin (1618034 / 10 ^ 6)) = Inr ''O(1.61804^n)''"
proof -
  let ?rec = "\<lparr>lhs = \<lparr>coef = 1, func = ''T'', vars = [''n''], shifts = [0]\<rparr>,
          rhs = [Function \<lparr>coef = 1, func = ''T'', vars = [''n''], shifts = [- 1]\<rparr>,
                 Function \<lparr>coef = 1, func = ''T'', vars = [''n''], shifts = [- 2]\<rparr>]\<rparr>"
  have snap: "snap_int (Fin r) 6 = Fin (1618034 / 10 ^ 6)"
    by (simp add: snap_int_def Let_def py_int_def py_round_near_phi [OF assms(2)])
  have solve: "solve_recurrence brentq ?rec = Inr (Fin (1618034 / 10 ^ 6))"
    unfolding solve_recurrence_def Let_def
    by (simp add: function_terms_def solve_g_fib_1 find_bracket_fib assms(1) snap)
  have fmt: "format_asymptotics ?rec (Fin (1618034 / 10 ^ 6)) = Inr ''O(1.61804^n)''"
    using format_number_161804 by (simp add: format_asymptotics_def)
  show ?thesis
    using parse_fibonacci solve fmt by blast
qed

theorem fibonacci_end_to_end_witness:
  "\<exists>rec. parse_recurrence ''T(n) = T(n-1) + T(n-2)'' = Inr rec \<and>
     solve_recurrence (\<lambda>g a b. Converged (16180339887 / 10 ^ 10)) rec =
       Inr (Fin (1618034 / 10 ^ 6)) \<and>
     format_asymptotics rec (Fin (1618034 / 10 ^ 6)) = Inr ''O(1.61804^n)''"
  by (rule fibonacci_end_to_end [where r = "16180339887 / 10 ^ 10"]) simp_all

section \<open>Sentinel outcomes\<close>

lemma find_root_nonpositive:
  assumes "2 \<le> length deltas" and "Min (set deltas) \<le> 0"
  shows "find_root newton brentq deltas x0 = Inr (Fin PENALTY)"
  using assms unfolding find_root_def Let_def by auto

lemma solve_half:
  "solve_recurrence brentq
     \<lparr>lhs = \<lparr>coef = 1, func = ''T'', vars = [''n''], shifts = [0]\<rparr>,
      rhs = [Function \<lparr>coef = 1 / 2, func = ''T'', vars = [''n''], shifts = [- 1]\<rparr>]\<rparr> =
   Inr (Fin PENALTY)"
  unfolding solve_recurrence_def Let_def
  by (simp add: function_terms_def solve_g_def)

text \<open>
  Claim C3.  \<open>find_root([])\<close> returns positive infinity; for every list of at least
  two deltas whose minimum is not positive, \<open>find_root\<close> returns the finite sentinel
  \<open>PENALTY = 1e6\<close>, whatever the warm start; the sentinel differs from positive
  infinity; and \<open>solve_recurrence\<close> on the parse of \<open>T(n) = 0.5*T(n-1)\<close> returns the
  same sentinel.  None of these outcomes depends on the numeric root-finders.
\<close>

theorem sentinel_outcomes:
  "find_root newton brentq [] x0 = Inr PInf \<and>
   (2 \<le> length deltas \<and> Min (set deltas) \<le> 0 \<longrightarrow>
      find_root newton brentq deltas x0 = Inr (Fin 1000000)) \<and>
   Fin PENALTY = Fin 1000000 \<and> Fin PENALTY \<noteq> PInf \<and>
   (\<exists>rec. parse_recurrence ''T(n) = 0.5*T(n-1)'' = Inr rec \<and>
      solve_recurrence brentq rec = Inr (Fin 1000000))"
proof (intro conjI impI)
  show "find_root newton brentq [] x0 = Inr PInf"
    by (simp add: find_root_def)
  show "find_root newton brentq deltas x0 = Inr (Fin 1000000)"
    if "2 \<le> length deltas \<and> Min (set deltas) \<le> 0"
    using that find_root_nonpositive [of deltas newton brentq x0] by (simp add: PENALTY_def)
  show "Fin PENALTY = Fin 1000000" by (simp add: PENALTY_def)
  show "Fin PENALTY \<noteq> PInf" by simp
  show "\<exists>rec. parse_recurrence ''T(n) = 0.5*T(n-1)'' = Inr rec \<and>
      solve_recurrence brentq rec = Inr (Fin 1000000)"
    using parse_half solve_half [of brentq] by (simp add: PENALTY_def)
qed

theorem sentinel_outcomes_witness:
  "find_root (\<lambda>f f' x n. NotConverged) (\<lambda>g a b. NotConverged) [0, 1] None =
     Inr (Fin 1000000) \<and>
   find_root (\<lambda>f f' x n. NotConverged) (\<lambda>g a b. NotConverged) [- 1, 1] None =
     Inr (Fin 1000000) \<and>
   find_root (\<lambda>f f' x n. NotConverged) (\<lambda>g a b. NotConverged) [1, 0] (Some (Fin 2)) =
     Inr (Fin 1000000)"
  using sentinel_outcomes [of "\<lambda>f f' x n. NotConverged" "\<lambda>g a b. NotConverged" None "[0, 1]"]
    sentinel_outcomes [of "\<lambda>f f' x n. NotConverged" "\<lambda>g a b. NotConverged" None "[- 1, 1]"]
    sentinel_outcomes [of "\<lambda>f f' x n. NotConverged" "\<lambda>g a b. NotConverged"
      "Some (Fin 2)" "[1, 0]"]
  by simp

section \<open>The sentinel in the formatter\<close>

text \<open>
  Claim C10.  For every single-variable recurrence, \<open>format_asymptotics\<close> applied to
  the infeasible sentinel \<open>1e6\<close> returns \<open>O(1000000^v)\<close>, \<open>v\<close> being the variable (so
  \<open>O(1000000^n)\<close> for the variable \<open>n\<close>): the sentinel is rendered like a genuine
  root, with no marker of its own.
\<close>

theorem format_asymptotics_sentinel:
  assumes "length (vars (lhs rec)) = 1"
  shows "format_asymptotics rec (Fin PENALTY) =
           Inr (''O(1000000^'' @ hd (vars (lhs rec)) @ '')'')"
  using assms format_number_penalty
  by (simp add: format_asymptotics_def PENALTY_def)

theorem format_asymptotics_sentinel_witness:
  "format_asymptotics
     \<lparr>lhs = \<lparr>coef = 1, func = ''T'', vars = [''n''], shifts = [0]\<rparr>, rhs = []\<rparr>
     (Fin PENALTY) = Inr ''O(1000000^n)''"
  using format_asymptotics_sentinel
    [of "\<lparr>lhs = \<lparr>coef = 1, func = ''T'', vars = [''n''], shifts = [0]\<rparr>, rhs = []\<rparr>"]
  by simp

section \<open>Rounding\<close>

lemma round_half_even_cases:
  "round_half_even y = \<lfloor>y\<rfloor> \<and> y - of_int \<lfloor>y\<rfloor> \<le> 1 / 2 \<or>
   round_half_even y = \<lfloor>y\<rfloor> + 1 \<and> 1 / 2 \<le> y - of_int \<lfloor>y\<rfloor>"
  unfolding round_half_even_def Let_def by auto

lemma round_half_even_close: "\<bar>of_int (round_half_even y) - y\<bar> \<le> 1 / 2"
proof -
  have "of_int \<lfloor>y\<rfloor> \<le> y" and "y < of_int \<lfloor>y\<rfloor> + 1"
    by linarith+
  then show ?thesis
    using round_half_even_cases [of y] by auto
qed

lemma round_half_even_unique:
  assumes "\<bar>y - of_int n\<bar> < 1 / 2"
  shows "round_half_even y = n"
proof -
  have "\<bar>of_int (round_half_even y) - (of_int n :: real)\<bar> < 1"
    using round_half_even_close [of y] assms by linarith
  then have "\<bar>round_half_even y - n\<bar> < 1"
    by (metis of_int_abs of_int_diff of_int_less_1_iff)
  then show ?thesis by linarith
qed


lemma py_round_close: "\<bar>py_round r 6 - r\<bar> \<le> 1 / (2 * 10 ^ 6)"
proof -
  have "\<bar>of_int (round_half_even (r * 10 ^ 6)) - r * 10 ^ 6\<bar> \<le> 1 / 2"
    by (rule round_half_even_close)
  then show ?thesis
    unfolding py_round_def by (simp add: field_simps abs_le_iff)
qed

lemma py_round_integer:
  assumes "\<bar>r - of_int n\<bar> < 1 / (2 * 10 ^ 6)"
  shows "py_round r 6 = of_int n"
proof -
  have "r * 10 ^ 6 - of_int (n * 10 ^ 6) = (r - of_int n) * 10 ^ 6"
    by (simp add: algebra_simps)
  then have "\<bar>r * 10 ^ 6 - of_int (n * 10 ^ 6)\<bar> = \<bar>r - of_int n\<bar> * 10 ^ 6"
    by (simp only: abs_mult) simp
  also have "\<dots> < 1 / 2"
    using assms by simp
  finally have "\<bar>r * 10 ^ 6 - of_int (n * 10 ^ 6)\<bar> < 1 / 2" .
  then have "round_half_even (r * 10 ^ 6) = n * 10 ^ 6"
    by (rule round_half_even_unique)
  then show ?thesis
    unfolding py_round_def by simp
qed


lemma snap_int_eq_py_round: "snap_int (Fin r) n = Fin (py_round r n)"
  by (simp add: snap_int_def Let_def)

section \<open>The paths of solve_recurrence\<close>

lemma solve_g_at_1:
  assumes "length coefs = length deltas"
  shows "solve_g coefs deltas 1 = Fin (sum_list coefs - 1)"
proof -
  have "map (\<lambda>(c, d). c * exp (- d * ln 1)) (zip coefs deltas) = map fst (zip coefs deltas)"
    by (simp add: case_prod_unfold)
  then show ?thesis
    using assms by (simp add: solve_g_def Let_def)
qed

lemma solve_recurrence_paths:
  assumes "positive_deltas rec"
  shows "solve_recurrence brentq rec =
     (let g1 = sum_list (rec_coefs rec) - 1
      in if \<bar>g1\<bar> < 1 / 10 ^ 12 then Inr (Fin 1)
         else if g1 < 0 then Inr (Fin PENALTY)
         else (case find_bracket (solve_g (rec_coefs rec) (rec_deltas rec)) 2 50 of
                 None \<Rightarrow> Inr (Fin PENALTY)
               | Some b \<Rightarrow>
                   (case brentq (solve_g (rec_coefs rec) (rec_deltas rec)) 1 b of
                      Converged r \<Rightarrow> Inr (Fin (py_round r 6))
                    | NotConverged \<Rightarrow> Inr (Fin PENALTY)
                    | Raised \<Rightarrow> Inr (Fin PENALTY))))"
proof -
  let ?fts = "function_terms (rhs rec)"
  from assms have a: "length (vars (lhs rec)) = 1" "?fts \<noteq> []"
    and b: "list_all (\<lambda>t. shifts t \<noteq> [] \<and> shifts t ! 0 < 0) ?fts"
    by (simp_all add: positive_deltas_def)
  from b have c: "\<not> list_ex (\<lambda>t. shifts t = []) ?fts"
    by (auto simp: list_all_iff list_ex_iff)
  from b have d: "\<not> list_ex (\<lambda>d. d \<le> 0) (map (\<lambda>t. - (shifts t ! 0)) ?fts)"
    by (auto simp: list_all_iff list_ex_iff)
  have g1: "solve_g (map coef ?fts) (map (\<lambda>t. - (shifts t ! 0)) ?fts) 1 =
      Fin (sum_list (map coef ?fts) - 1)"
    by (rule solve_g_at_1) simp
  show ?thesis
    unfolding solve_recurrence_def Let_def rec_coefs_def rec_deltas_def
    using a c d
    by (simp add: g1 snap_int_eq_py_round split: option.split scalar_sol.split)
qed

lemma find_bracket_double: "find_bracket (solve_g [2] [1]) 2 50 = Some 2"
  by (simp add: find_bracket.simps solve_g_def finite_nonpos_def exp_eval)

lemma solve_recurrence_exact:
  "solve_recurrence brentq rec = solve_recurrence_with solve_g (1 / 10 ^ 12) brentq rec"
  by (simp only: solve_recurrence_def solve_recurrence_with_def)

lemma solve_recurrence_with_paths:
  assumes "positive_deltas rec"
  shows "solve_recurrence_with G eps brentq rec =
     (let g = G (rec_coefs rec) (rec_deltas rec); g1 = g 1
      in if (case g1 of Fin v \<Rightarrow> \<bar>v\<bar> < eps | PInf \<Rightarrow> False) then Inr (Fin 1)
         else if (case g1 of Fin v \<Rightarrow> v < 0 | PInf \<Rightarrow> False) then Inr (Fin PENALTY)
         else (case find_bracket g 2 50 of
                 None \<Rightarrow> Inr (Fin PENALTY)
               | Some b \<Rightarrow>
                   (case brentq g 1 b of
                      Converged r \<Rightarrow> Inr (Fin (py_round r 6))
                    | NotConverged \<Rightarrow> Inr (Fin PENALTY)
                    | Raised \<Rightarrow> Inr (Fin PENALTY))))"
proof -
  let ?fts = "function_terms (rhs rec)"
  from assms have a: "length (vars (lhs rec)) = 1" "?fts \<noteq> []"
    and b: "list_all (\<lambda>t. shifts t \<noteq> [] \<and> shifts t ! 0 < 0) ?fts"
    by (simp_all add: positive_deltas_def)
  from b have c: "\<not> list_ex (\<lambda>t. shifts t = []) ?fts"
    by (auto simp: list_all_iff list_ex_iff)
  from b have d: "\<not> list_ex (\<lambda>d. d \<le> 0) (map (\<lambda>t. - (shifts t ! 0)) ?fts)"
    by (auto simp: list_all_iff list_ex_iff)
  show ?thesis
    unfolding solve_recurrence_with_def Let_def rec_coefs_def rec_deltas_def
    using a c d
    by (simp add: snap_int_eq_py_round split: option.split scalar_sol.split)
qed

section \<open>Integer snapping\<close>

text \<open>
  Claim C4.  When the bracketed root-finder converges, the returned root is the
  computed root snapped to the nearest integer if and only if it lies within \<open>1e-6\<close> of
  that integer, and is otherwise returned unmodified.

  The code rounds every converged root to 6 decimals.  For Fibonacci the root-finder
  returns 1.618033988749895, which is farther than \<open>1e-6\<close> from every integer, and
  \<open>solve_recurrence\<close> returns 1.618034.
\<close>

theorem snap_int_modifies_root:
  "solve_recurrence (\<lambda>g a b. Converged (1618033988749895 / 10 ^ 15))
     \<lparr>lhs = \<lparr>coef = 1, func = ''T'', vars = [''n''], shifts = [0]\<rparr>,
      rhs = [Function \<lparr>coef = 1, func = ''T'', vars = [''n''], shifts = [- 1]\<rparr>,
             Function \<lparr>coef = 1, func = ''T'', vars = [''n''], shifts = [- 2]\<rparr>]\<rparr> =
     Inr (Fin (1618034 / 10 ^ 6)) \<and>
   (1618034 / 10 ^ 6 :: real) \<noteq> 1618033988749895 / 10 ^ 15 \<and>
   (\<forall>n :: int. 1 / 10 ^ 6 < \<bar>1618033988749895 / 10 ^ 15 - real_of_int n\<bar>)"
proof (intro conjI allI)
  have "\<bar>1618033988749895 / 10 ^ 15 - 16180339887 / 10 ^ 10\<bar> \<le> (1 / 10 ^ 9 :: real)"
    by simp
  then have "py_round (1618033988749895 / 10 ^ 15) 6 = 1618034 / 10 ^ 6"
    by (rule py_round_near_phi)
  then have snap: "snap_int (Fin (1618033988749895 / 10 ^ 15)) 6 = Fin (1618034 / 10 ^ 6)"
    by (simp only: snap_int_eq_py_round)
  show "solve_recurrence (\<lambda>g a b. Converged (1618033988749895 / 10 ^ 15))
     \<lparr>lhs = \<lparr>coef = 1, func = ''T'', vars = [''n''], shifts = [0]\<rparr>,
      rhs = [Function \<lparr>coef = 1, func = ''T'', vars = [''n''], shifts = [- 1]\<rparr>,
             Function \<lparr>coef = 1, func = ''T'', vars = [''n''], shifts = [- 2]\<rparr>]\<rparr> =
     Inr (Fin (1618034 / 10 ^ 6))"
    unfolding solve_recurrence_def Let_def
    using snap by (simp add: function_terms_def solve_g_fib_1 find_bracket_fib)
  show "(1618034 / 10 ^ 6 :: real) \<noteq> 1618033988749895 / 10 ^ 15"
    by simp
  show "1 / 10 ^ 6 < \<bar>1618033988749895 / 10 ^ 15 - real_of_int n\<bar>" for n :: int
  proof (cases "n \<le> 1")
    case True
    then have "real_of_int n \<le> 1" by simp
    then show ?thesis by simp
  next
    case False
    then have "2 \<le> n" by simp
    then have "2 \<le> real_of_int n" by simp
    then show ?thesis by simp
  qed
qed

text \<open>
  Claim C4, as amended.  When \<open>solve_recurrence\<close> reaches the bracketed root-finder
  and it converges to \<open>r\<close>, the result is \<open>r\<close> rounded to 6 decimals (a tie going to
  the even neighbour), which differs from \<open>r\<close> by at most \<open>5e-7\<close>.  The result is the
  integer \<open>n\<close> whenever \<open>r\<close> is closer than \<open>5e-7\<close> to \<open>n\<close>, and only if \<open>r\<close> is within
  \<open>5e-7\<close> of \<open>n\<close>.
\<close>

theorem solve_recurrence_rounds_root:
  assumes "positive_deltas rec"
    and "1 / 10 ^ 12 \<le> sum_list (rec_coefs rec) - 1"
    and "find_bracket (solve_g (rec_coefs rec) (rec_deltas rec)) 2 50 = Some b"
    and "brentq (solve_g (rec_coefs rec) (rec_deltas rec)) 1 b = Converged r"
  shows "solve_recurrence brentq rec = Inr (Fin (py_round r 6)) \<and>
         \<bar>py_round r 6 - r\<bar> \<le> 1 / (2 * 10 ^ 6) \<and>
         (\<forall>n. \<bar>r - of_int n\<bar> < 1 / (2 * 10 ^ 6) \<longrightarrow> py_round r 6 = of_int n) \<and>
         (\<forall>n. py_round r 6 = of_int n \<longrightarrow> \<bar>r - of_int n\<bar> \<le> 1 / (2 * 10 ^ 6))"
proof (intro conjI allI impI)
  show "solve_recurrence brentq rec = Inr (Fin (py_round r 6))"
    unfolding solve_recurrence_paths [OF assms(1)] Let_def
    using assms(2,3,4) by simp
  show "\<bar>py_round r 6 - r\<bar> \<le> 1 / (2 * 10 ^ 6)"
    by (rule py_round_close)
  show "py_round r 6 = of_int n" if "\<bar>r - of_int n\<bar> < 1 / (2 * 10 ^ 6)" for n
    using that by (rule py_round_integer)
  show "\<bar>r - of_int n\<bar> \<le> 1 / (2 * 10 ^ 6)" if "py_round r 6 = of_int n" for n
    using py_round_close [of r] that by (simp add: abs_minus_commute)
qed

theorem solve_recurrence_rounds_root_witness:
  "solve_recurrence (\<lambda>g a b. Converged (19999999 / 10 ^ 7))
     \<lparr>lhs = \<lparr>coef = 1, func = ''T'', vars = [''n''], shifts = [0]\<rparr>,
      rhs = [Function \<lparr>coef = 2, func = ''T'', vars = [''n''], shifts = [- 1]\<rparr>]\<rparr> =
   Inr (Fin 2)"
proof -
  let ?rec = "\<lparr>lhs = \<lparr>coef = 1, func = ''T'', vars = [''n''], shifts = [0]\<rparr>,
      rhs = [Function \<lparr>coef = 2, func = ''T'', vars = [''n''], shifts = [- 1]\<rparr>]\<rparr>"
  let ?brentq = "\<lambda>(g :: real \<Rightarrow> root) (a :: real) (b :: real). Converged (19999999 / 10 ^ 7)"
  have c: "rec_coefs ?rec = [2]" and d: "rec_deltas ?rec = [1]"
    by (simp_all add: rec_coefs_def rec_deltas_def function_terms_def)
  have 1: "positive_deltas ?rec"
    by (simp add: positive_deltas_def function_terms_def)
  have 2: "1 / 10 ^ 12 \<le> sum_list (rec_coefs ?rec) - 1"
    by (simp add: c)
  have 3: "find_bracket (solve_g (rec_coefs ?rec) (rec_deltas ?rec)) 2 50 = Some 2"
    by (simp add: c d find_bracket_double)
  have 4: "?brentq (solve_g (rec_coefs ?rec) (rec_deltas ?rec)) 1 2 = Converged (19999999 / 10 ^ 7)"
    by simp
  have "py_round (19999999 / 10 ^ 7) 6 = 2"
    by (simp add: py_round_def round_half_even_def Let_def)
  with solve_recurrence_rounds_root [OF 1 2 3 4] show ?thesis
    by simp
qed

section \<open>The boundary between the constant and the infeasible outcome\<close>

text \<open>
  Claim C5.  For a single-variable recurrence with at least one function term and all
  deltas positive, \<open>solve_recurrence\<close> returns the infeasible sentinel when \<open>g(1)\<close>, the
  sum of the coefficients minus 1, lies in \<open>(-1e-12, 0)\<close>, and exactly 1 when it lies in
  \<open>[0, 1e-12]\<close>.

  The code tests \<open>abs(g1) < 1e-12\<close> first: on \<open>T(n) = 0.9999999999995*T(n-1)\<close>, where
  \<open>g(1) = -5e-13\<close>, it returns 1, not the sentinel.
\<close>

theorem constant_boundary_counterexample:
  "(\<exists>rec. parse_recurrence ''T(n) = 0.9999999999995*T(n-1)'' = Inr rec \<and>
      positive_deltas rec \<and>
      - (1 / 10 ^ 12) < sum_list (rec_coefs rec) - 1 \<and> sum_list (rec_coefs rec) - 1 < 0 \<and>
      solve_recurrence (\<lambda>g a b. NotConverged) rec = Inr (Fin 1)) \<and>
   Fin 1 \<noteq> Fin PENALTY"
proof (intro conjI exI)
  let ?rec = "\<lparr>lhs = \<lparr>coef = 1, func = ''T'', vars = [''n''], shifts = [0]\<rparr>,
      rhs = [Function \<lparr>coef = 9999999999995 / 10 ^ 13, func = ''T'', vars = [''n''],
               shifts = [- 1]\<rparr>]\<rparr>"
  show "parse_recurrence ''T(n) = 0.9999999999995*T(n-1)'' = Inr ?rec"
    by (simp add: char_eval regex_eval parse_eval Let_def)
  show p: "positive_deltas ?rec"
    by (simp add: positive_deltas_def function_terms_def)
  show "- (1 / 10 ^ 12) < sum_list (rec_coefs ?rec) - 1"
    by (simp add: rec_coefs_def function_terms_def)
  show "sum_list (rec_coefs ?rec) - 1 < 0"
    by (simp add: rec_coefs_def function_terms_def)
  show "solve_recurrence (\<lambda>g a b. NotConverged) ?rec = Inr (Fin 1)"
    unfolding solve_recurrence_paths [OF p] Let_def
    by (simp add: rec_coefs_def function_terms_def)
  show "Fin 1 \<noteq> Fin PENALTY"
    by (simp add: PENALTY_def)
qed

text \<open>
  Claim C5, as amended.  For a single-variable recurrence with at least one function
  term and all deltas positive, \<open>solve_recurrence\<close> returns exactly 1 when the value that
  it computes for \<open>g(1)\<close> in double arithmetic lies in the open interval
  \<open>(-1e-12, 1e-12)\<close>, and the infeasible sentinel when that computed value is at most
  \<open>-1e-12\<close>.  The statement holds for every evaluation \<open>G\<close> of \<open>g\<close> and every positive
  threshold \<open>eps\<close>, hence for the doubles of the code; the computed value can differ
  from the exact sum of the coefficients minus 1 by rounding.
\<close>

theorem constant_boundary_computed:
  assumes "positive_deltas rec"
    and "G (rec_coefs rec) (rec_deltas rec) 1 = Fin g1"
    and "0 < eps"
  shows "(\<bar>g1\<bar> < eps \<longrightarrow> solve_recurrence_with G eps brentq rec = Inr (Fin 1)) \<and>
         (g1 \<le> - eps \<longrightarrow> solve_recurrence_with G eps brentq rec = Inr (Fin PENALTY))"
  unfolding solve_recurrence_with_paths [OF assms(1)] Let_def
  using assms(2,3) by auto

theorem constant_boundary_computed_witness:
  "solve_recurrence_with solve_g (1 / 10 ^ 12) (\<lambda>g a b. NotConverged)
     \<lparr>lhs = \<lparr>coef = 1, func = ''T'', vars = [''n''], shifts = [0]\<rparr>,
      rhs = [Function \<lparr>coef = 9999999999995 / 10 ^ 13, func = ''T'', vars = [''n''],
               shifts = [- 1]\<rparr>]\<rparr> = Inr (Fin 1) \<and>
   solve_recurrence_with solve_g (1 / 10 ^ 12) (\<lambda>g a b. NotConverged)
     \<lparr>lhs = \<lparr>coef = 1, func = ''T'', vars = [''n''], shifts = [0]\<rparr>,
      rhs = [Function \<lparr>coef = 1 / 2, func = ''T'', vars = [''n''],
               shifts = [- 1]\<rparr>]\<rparr> = Inr (Fin PENALTY)"
proof -
  let ?a = "\<lparr>lhs = \<lparr>coef = 1, func = ''T'', vars = [''n''], shifts = [0]\<rparr>,
      rhs = [Function \<lparr>coef = 9999999999995 / 10 ^ 13, func = ''T'', vars = [''n''],
               shifts = [- 1]\<rparr>]\<rparr>"
  let ?b = "\<lparr>lhs = \<lparr>coef = 1, func = ''T'', vars = [''n''], shifts = [0]\<rparr>,
      rhs = [Function \<lparr>coef = 1 / 2, func = ''T'', vars = [''n''],
               shifts = [- 1]\<rparr>]\<rparr>"
  have pa: "positive_deltas ?a" and pb: "positive_deltas ?b"
    by (simp_all add: positive_deltas_def function_terms_def)
  have ga: "solve_g (rec_coefs ?a) (rec_deltas ?a) 1 = Fin (- (5 / 10 ^ 13))"
    by (simp add: rec_coefs_def rec_deltas_def function_terms_def solve_g_def)
  have gb: "solve_g (rec_coefs ?b) (rec_deltas ?b) 1 = Fin (- (1 / 2))"
    by (simp add: rec_coefs_def rec_deltas_def function_terms_def solve_g_def)
  have e: "(0 :: real) < 1 / 10 ^ 12" by simp
  have ca: "\<bar>- (5 / 10 ^ 13) :: real\<bar> < 1 / 10 ^ 12" by simp
  have cb: "(- (1 / 2) :: real) \<le> - (1 / 10 ^ 12)" by simp
  note ta = constant_boundary_computed
    [of ?a solve_g "- (5 / 10 ^ 13)" "1 / 10 ^ 12" "\<lambda>g a b. NotConverged", OF pa ga e]
  note tb = constant_boundary_computed
    [of ?b solve_g "- (1 / 2)" "1 / 10 ^ 12" "\<lambda>g a b. NotConverged", OF pb gb e]
  from ta ca tb cb show ?thesis by blast
qed

section \<open>The normalizer\<close>

lemma function_terms_simps [simp]:
  "function_terms [] = []"
  "function_terms (Function f # ts) = f # function_terms ts"
  "function_terms (Constant c # ts) = function_terms ts"
  "function_terms (ts @ us) = function_terms ts @ function_terms us"
  by (simp_all add: function_terms_def)

lemma constants_of_simps [simp]:
  "constants_of [] = []"
  "constants_of (Function f # ts) = constants_of ts"
  "constants_of (Constant c # ts) = c # constants_of ts"
  "constants_of (ts @ us) = constants_of ts @ constants_of us"
  by (simp_all add: constants_of_def)

lemma shift_vectors_snoc:
  "shift_vectors (fts @ [t]) =
     (if shifts t \<in> set (shift_vectors fts) then shift_vectors fts
      else shift_vectors fts @ [shifts t])"
  by (simp add: shift_vectors_def)

lemma set_shift_vectors [simp]: "set (shift_vectors fts) = shifts ` set fts"
  by (simp add: shift_vectors_def)

lemma distinct_shift_vectors [simp]: "distinct (shift_vectors fts)"
  by (simp add: shift_vectors_def)

lemma grouped_coef_snoc:
  "grouped_coef (fts @ [t]) k = grouped_coef fts k + (if shifts t = k then coef t else 0)"
  by (simp add: grouped_coef_def)

lemma grouped_coef_absent: "k \<notin> shifts ` set fts \<Longrightarrow> grouped_coef fts k = 0"
proof -
  assume "k \<notin> shifts ` set fts"
  then have "filter (\<lambda>t. shifts t = k) fts = []"
    by (auto simp: filter_empty_conv)
  then show ?thesis by (simp add: grouped_coef_def)
qed

lemma dict_get_table:
  "dict_get (map (\<lambda>k. (k, f k)) ks) k 0 = (if k \<in> set ks then f k else 0)"
  by (induction ks) (auto simp: dict_get_def)

lemma dict_set_table:
  assumes "distinct ks"
  shows "dict_set (map (\<lambda>k. (k, f k)) ks) k v =
     (if k \<in> set ks then map (\<lambda>k'. (k', if k' = k then v else f k')) ks
      else map (\<lambda>k. (k, f k)) ks @ [(k, v)])"
  using assms by (induction ks) auto

lemma combine_loop_snoc:
  "combine_loop (ts @ [t]) c fm =
     (case combine_loop ts c fm of (c', fm') \<Rightarrow> combine_loop [t] c' fm')"
  by (induction ts c fm rule: combine_loop.induct) simp_all

lemma combine_loop_eq:
  "combine_loop ts 0 [] =
     (sum_list (constants_of ts),
      map (\<lambda>k. (k, grouped_coef (function_terms ts) k)) (shift_vectors (function_terms ts)))"
proof (induction ts rule: rev_induct)
  case Nil
  show ?case by (simp add: shift_vectors_def)
next
  case (snoc t ts)
  show ?case
  proof (cases t)
    case (Constant c)
    then show ?thesis
      by (simp add: combine_loop_snoc snoc)
  next
    case (Function f)
    let ?fts = "function_terms ts"
    have "dict_set (map (\<lambda>k. (k, grouped_coef ?fts k)) (shift_vectors ?fts)) (shifts f)
            (dict_get (map (\<lambda>k. (k, grouped_coef ?fts k)) (shift_vectors ?fts)) (shifts f) 0
               + coef f) =
          map (\<lambda>k. (k, grouped_coef (?fts @ [f]) k)) (shift_vectors (?fts @ [f]))"
      by (auto simp: dict_get_table dict_set_table shift_vectors_snoc grouped_coef_snoc
          grouped_coef_absent)
    then show ?thesis
      using Function by (simp add: combine_loop_snoc snoc)
  qed
qed

lemma emit_functions_Inr:
  "emit_functions fm vars_list fn = Inr ts \<Longrightarrow>
   ts = map (\<lambda>(k, c). Function \<lparr>coef = c, func = fn, vars = vars_list, shifts = k\<rparr>)
          (filter (\<lambda>(k, c). \<not> \<bar>c\<bar> < 1 / 10 ^ 12) fm)"
proof (induction fm arbitrary: ts)
  case Nil
  then show ?case by simp
next
  case (Cons p fm)
  obtain k c where p: "p = (k, c)" by (cases p)
  show ?case
    using Cons unfolding p
    by (auto simp: mk_FunctionTerm_def split: if_splits sum.splits)
qed

lemma combine_terms_Inr:
  assumes "combine_terms raw_terms vars_list fn = Inr terms"
  shows "terms = normalized_terms raw_terms vars_list fn"
proof -
  let ?fts = "function_terms raw_terms"
  let ?fm = "map (\<lambda>k. (k, grouped_coef ?fts k)) (shift_vectors ?fts)"
  from assms obtain fts where e: "emit_functions ?fm vars_list fn = Inr fts"
    and t: "terms = (if 1 / 10 ^ 12 < \<bar>sum_list (constants_of raw_terms)\<bar>
                     then [Constant (sum_list (constants_of raw_terms))] else []) @ fts"
    by (auto simp: combine_terms_def combine_loop_eq split: sum.splits)
  have "fts = map (\<lambda>k. Function \<lparr>coef = grouped_coef ?fts k, func = fn, vars = vars_list,
                            shifts = k\<rparr>)
                (filter (\<lambda>k. 1 / 10 ^ 12 \<le> \<bar>grouped_coef ?fts k\<bar>) (shift_vectors ?fts))"
    unfolding emit_functions_Inr [OF e]
    by (simp add: filter_map comp_def not_less)
  with t show ?thesis
    by (simp add: normalized_terms_def Let_def)
qed

lemma function_terms_map_Function [simp]: "function_terms (map (\<lambda>k. Function (f k)) ks) = map f ks"
  by (induction ks) simp_all

lemma constants_of_map_Function [simp]: "constants_of (map (\<lambda>k. Function (f k)) ks) = []"
  by (induction ks) simp_all

lemma function_terms_normalized:
  "function_terms (normalized_terms raw_terms vars_list fn) =
     map (\<lambda>k. \<lparr>coef = grouped_coef (function_terms raw_terms) k, func = fn,
               vars = vars_list, shifts = k\<rparr>)
       (filter (\<lambda>k. 1 / 10 ^ 12 \<le> \<bar>grouped_coef (function_terms raw_terms) k\<bar>)
          (shift_vectors (function_terms raw_terms)))"
  by (simp add: normalized_terms_def Let_def)

lemma constants_of_normalized:
  "constants_of (normalized_terms raw_terms vars_list fn) =
     (if 1 / 10 ^ 12 < \<bar>sum_list (constants_of raw_terms)\<bar>
      then [sum_list (constants_of raw_terms)] else [])"
  by (simp add: normalized_terms_def Let_def)

lemma constant_first_normalized:
  assumes "i < length (normalized_terms raw_terms vars_list fn)"
    and "normalized_terms raw_terms vars_list fn ! i = Constant c"
  shows "i = 0"
proof (rule ccontr)
  assume "i \<noteq> 0"
  then obtain j where j: "i = Suc j" by (cases i) auto
  let ?ks = "filter (\<lambda>k. 1 / 10 ^ 12 \<le> \<bar>grouped_coef (function_terms raw_terms) k\<bar>)
          (shift_vectors (function_terms raw_terms))"
  let ?F = "\<lambda>k. Function \<lparr>coef = grouped_coef (function_terms raw_terms) k, func = fn,
               vars = vars_list, shifts = k\<rparr>"
  show False
  proof (cases "1 / 10 ^ 12 < \<bar>sum_list (constants_of raw_terms)\<bar>")
    case True
    with assms j have "j < length ?ks" and "map ?F ?ks ! j = Constant c"
      by (simp_all add: normalized_terms_def Let_def)
    then show False by simp
  next
    case False
    with assms have "i < length ?ks" and "map ?F ?ks ! i = Constant c"
      by (simp_all add: normalized_terms_def Let_def)
    then show False by simp
  qed
qed

lemma parse_recurrence_Inr:
  assumes "parse_recurrence text = Inr rec"
  shows "\<exists>fn vars_list l raw_terms.
           parse_raw text = Inr (fn, vars_list, l, raw_terms) \<and>
           combine_terms raw_terms vars_list fn = Inr (rhs rec)"
  using assms
  by (auto simp: parse_recurrence_def mk_Recurrence_def split: sum.splits prod.splits if_splits)

text \<open>
  Claim C6.  The normalizer emits first the combined constant if and only if the
  magnitude of the summed constant strictly exceeds \<open>1e-12\<close>, then one FunctionTerm per
  distinct shift vector in first-occurrence order, each if and only if the magnitude
  of its grouped coefficient strictly exceeds \<open>1e-12\<close>, so that a grouped coefficient of
  magnitude exactly \<open>1e-12\<close> is dropped.

  The guard of the constant, \<open>abs(constant_sum) > 1e-12\<close>, does what the claim says;
  the guard of the function terms, \<open>abs(coef) < 1e-12\<close>, does not: it keeps a grouped
  coefficient of magnitude exactly \<open>1e-12\<close>.  The theorem evaluates both guards at that
  value: \<open>T(n) = 0.000000000001*T(n-1)\<close> keeps its term, while a constant
  \<open>0.000000000001\<close> is dropped.
\<close>

theorem normalizer_keeps_boundary_coefficient:
  "parse_recurrence ''T(n) = 0.000000000001*T(n-1)'' =
     Inr \<lparr>lhs = \<lparr>coef = 1, func = ''T'', vars = [''n''], shifts = [0]\<rparr>,
          rhs = [Function \<lparr>coef = 1 / 10 ^ 12, func = ''T'', vars = [''n''],
                   shifts = [- 1]\<rparr>]\<rparr> \<and>
   combine_terms [Function \<lparr>coef = 1 / 10 ^ 12, func = ''T'', vars = [''n''], shifts = [- 1]\<rparr>]
     [''n''] ''T'' =
     Inr [Function \<lparr>coef = 1 / 10 ^ 12, func = ''T'', vars = [''n''], shifts = [- 1]\<rparr>] \<and>
   \<not> 1 / 10 ^ 12 < \<bar>1 / 10 ^ 12 :: real\<bar> \<and>
   combine_terms [Constant (1 / 10 ^ 12)] [''n''] ''T'' = Inr [] \<and>
   parse_recurrence ''T(n) = 0.000000000001'' =
     Inr \<lparr>lhs = \<lparr>coef = 1, func = ''T'', vars = [''n''], shifts = [0]\<rparr>, rhs = []\<rparr>"
proof (intro conjI)
  show "parse_recurrence ''T(n) = 0.000000000001*T(n-1)'' =
     Inr \<lparr>lhs = \<lparr>coef = 1, func = ''T'', vars = [''n''], shifts = [0]\<rparr>,
          rhs = [Function \<lparr>coef = 1 / 10 ^ 12, func = ''T'', vars = [''n''],
                   shifts = [- 1]\<rparr>]\<rparr>"
    by (simp add: char_eval regex_eval parse_eval Let_def)
  show "combine_terms [Function \<lparr>coef = 1 / 10 ^ 12, func = ''T'', vars = [''n''], shifts = [- 1]\<rparr>]
     [''n''] ''T'' =
     Inr [Function \<lparr>coef = 1 / 10 ^ 12, func = ''T'', vars = [''n''], shifts = [- 1]\<rparr>]"
    by (simp add: combine_terms_def dict_get_def mk_FunctionTerm_def)
  show "\<not> 1 / 10 ^ 12 < \<bar>1 / 10 ^ 12 :: real\<bar>"
    by simp
  show "combine_terms [Constant (1 / 10 ^ 12)] [''n''] ''T'' = Inr []"
    by (simp add: combine_terms_def)
  show "parse_recurrence ''T(n) = 0.000000000001'' =
     Inr \<lparr>lhs = \<lparr>coef = 1, func = ''T'', vars = [''n''], shifts = [0]\<rparr>, rhs = []\<rparr>"
    by (simp add: char_eval regex_eval parse_eval Let_def)
qed

section \<open>The parser's output is normalized\<close>

lemma parse_duplicates:
  "parse_recurrence ''T(n) = T(n-1) + 1 + 2*T(n-1) + T(n-2) + 2'' =
     Inr \<lparr>lhs = \<lparr>coef = 1, func = ''T'', vars = [''n''], shifts = [0]\<rparr>,
          rhs = [Constant 3,
                 Function \<lparr>coef = 3, func = ''T'', vars = [''n''], shifts = [- 1]\<rparr>,
                 Function \<lparr>coef = 1, func = ''T'', vars = [''n''], shifts = [- 2]\<rparr>]\<rparr>"
  by (simp add: char_eval regex_eval parse_eval Let_def)

text \<open>
  Claim C9.  Every Recurrence returned by \<open>parse_recurrence\<close> has a right-hand side
  with at most one ConstantTerm, which if present is the first element, and function
  terms with pairwise distinct shift vectors, each carrying the summed coefficient of
  all the parsed summands that share its shift vector.
\<close>

theorem parse_recurrence_normalized:
  assumes "parse_recurrence text = Inr rec"
  shows "length (constants_of (rhs rec)) \<le> 1 \<and>
         (\<forall>i < length (rhs rec). (\<exists>c. rhs rec ! i = Constant c) \<longrightarrow> i = 0) \<and>
         distinct (map shifts (function_terms (rhs rec))) \<and>
         (\<exists>fn vars_list l raw_terms.
            parse_raw text = Inr (fn, vars_list, l, raw_terms) \<and>
            (\<forall>t \<in> set (function_terms (rhs rec)).
               coef t = grouped_coef (function_terms raw_terms) (shifts t)))"
proof -
  from parse_recurrence_Inr [OF assms] obtain fn vars_list l raw_terms
    where raw: "parse_raw text = Inr (fn, vars_list, l, raw_terms)"
      and "combine_terms raw_terms vars_list fn = Inr (rhs rec)"
    by blast
  then have eq: "rhs rec = normalized_terms raw_terms vars_list fn"
    by (simp add: combine_terms_Inr)
  have 1: "length (constants_of (rhs rec)) \<le> 1"
    unfolding eq constants_of_normalized by simp
  have 2: "\<forall>i < length (rhs rec). (\<exists>c. rhs rec ! i = Constant c) \<longrightarrow> i = 0"
    unfolding eq using constant_first_normalized by blast
  have 3: "distinct (map shifts (function_terms (rhs rec)))"
    unfolding eq function_terms_normalized
    by (simp add: comp_def distinct_map_filter)
  have 4: "\<forall>t \<in> set (function_terms (rhs rec)).
             coef t = grouped_coef (function_terms raw_terms) (shifts t)"
    unfolding eq function_terms_normalized by auto
  from raw 1 2 3 4 show ?thesis by blast
qed

theorem parse_recurrence_normalized_witness:
  "\<exists>rec. parse_recurrence ''T(n) = T(n-1) + 1 + 2*T(n-1) + T(n-2) + 2'' = Inr rec \<and>
     rhs rec = [Constant 3,
                Function \<lparr>coef = 3, func = ''T'', vars = [''n''], shifts = [- 1]\<rparr>,
                Function \<lparr>coef = 1, func = ''T'', vars = [''n''], shifts = [- 2]\<rparr>] \<and>
     length (constants_of (rhs rec)) \<le> 1 \<and>
     distinct (map shifts (function_terms (rhs rec)))"
  using parse_duplicates parse_recurrence_normalized [OF parse_duplicates] by simp

section \<open>Monotonicity of the solved root\<close>












section \<open>Constructor invariants\<close>

text \<open>
  Claim C8.  Constructing a FunctionTerm raises ValueError exactly when the vars and
  shifts lists have different lengths, and constructing a Recurrence raises ValueError
  exactly when lhs.coef is not 1 or some lhs shift is nonzero; hence every value that
  a constructor returns satisfies the invariant: a FunctionTerm has as many shifts as
  variables, a Recurrence has lhs.coef = 1 and all lhs shifts 0.  The value returned
  carries the arguments unchanged.
\<close>

theorem constructor_invariants:
  "(mk_FunctionTerm c f vs ss = Inl ValueError \<longleftrightarrow> length vs \<noteq> length ss) \<and>
   (length vs = length ss \<longrightarrow>
      mk_FunctionTerm c f vs ss = Inr \<lparr>coef = c, func = f, vars = vs, shifts = ss\<rparr>) \<and>
   (\<forall>t. mk_FunctionTerm c f vs ss = Inr t \<longrightarrow> length (vars t) = length (shifts t)) \<and>
   (mk_Recurrence l r = Inl ValueError \<longleftrightarrow> coef l \<noteq> 1 \<or> (\<exists>s \<in> set (shifts l). s \<noteq> 0)) \<and>
   (\<forall>rec. mk_Recurrence l r = Inr rec \<longrightarrow>
      coef (lhs rec) = 1 \<and> (\<forall>s \<in> set (shifts (lhs rec)). s = 0) \<and>
      lhs rec = l \<and> rhs rec = r)"
  by (auto simp: mk_FunctionTerm_def mk_Recurrence_def list_ex_iff split: if_splits)

theorem constructor_invariants_witness:
  "mk_FunctionTerm 2 ''T'' [''n'', ''m''] [-1] = Inl ValueError \<and>
   mk_FunctionTerm 2 ''T'' [''n'', ''m''] [-1, 0] =
     Inr \<lparr>coef = 2, func = ''T'', vars = [''n'', ''m''], shifts = [-1, 0]\<rparr> \<and>
   mk_Recurrence \<lparr>coef = 2, func = ''T'', vars = [''n''], shifts = [0]\<rparr> [] = Inl ValueError \<and>
   mk_Recurrence \<lparr>coef = 1, func = ''T'', vars = [''n''], shifts = [-1]\<rparr> [] = Inl ValueError \<and>
   mk_Recurrence \<lparr>coef = 1, func = ''T'', vars = [''n''], shifts = [0]\<rparr> [Constant 5] =
     Inr \<lparr>lhs = \<lparr>coef = 1, func = ''T'', vars = [''n''], shifts = [0]\<rparr>, rhs = [Constant 5]\<rparr>"
proof -
  note a = constructor_invariants [of 2 "''T''" "[''n'', ''m'']" "[-1]"
      "\<lparr>coef = 2, func = ''T'', vars = [''n''], shifts = [0]\<rparr>" "[]"]
  note b = constructor_invariants [of 2 "''T''" "[''n'', ''m'']" "[-1, 0]"
      "\<lparr>coef = 1, func = ''T'', vars = [''n''], shifts = [-1]\<rparr>" "[]"]
  from a have 1: "mk_FunctionTerm 2 ''T'' [''n'', ''m''] [-1] = Inl ValueError"
    by simp
  from a have 2: "mk_Recurrence \<lparr>coef = 2, func = ''T'', vars = [''n''], shifts = [0]\<rparr> []
      = Inl ValueError"
    by simp
  from b have 3: "mk_FunctionTerm 2 ''T'' [''n'', ''m''] [-1, 0] =
      Inr \<lparr>coef = 2, func = ''T'', vars = [''n'', ''m''], shifts = [-1, 0]\<rparr>"
    by simp
  from b have 4: "mk_Recurrence \<lparr>coef = 1, func = ''T'', vars = [''n''], shifts = [-1]\<rparr> []
      = Inl ValueError"
    by simp
  show ?thesis
    using 1 2 3 4 by (simp add: mk_Recurrence_def)
qed

end
